theory Spec2Isabelle
  imports Complex_Main
begin

section \<open>JavaScript values\<close>

text \<open>
  The schema file \<^verbatim>\<open>examples-next/auth/schema.ts\<close> declares \<^verbatim>\<open>type Session = any\<close>
  and \<^verbatim>\<open>GenericItem = { id: string | number; [path: string]: any }\<close>, so the access
  functions receive arbitrary JavaScript values. The model keeps the value kinds that
  the expressions of the file can tell apart: the two nullish values, booleans, numbers,
  strings, and objects as plain data (a reference and the list of own properties; no
  getters, proxies or prototype pollution).
\<close>

datatype jsnum = Finite rat | NaN | PosInf | NegInf

datatype jsval =
    JUndefined
  | JNull
  | JBool bool
  | JNum jsnum
  | JStr string
  | JObj nat "(string \<times> jsval) list"

text \<open>A property read that hits \<^verbatim>\<open>undefined\<close> or \<^verbatim>\<open>null\<close> throws a TypeError.\<close>

datatype error = TypeError

text \<open>The three values an \<^verbatim>\<open>itemView.fieldMode\<close> function of the file returns.\<close>

datatype fieldMode = Edit | Read | Hidden

text \<open>\<^verbatim>\<open>v == null\<close>: the test behind \<^verbatim>\<open>?.\<close>.\<close>

fun nullish :: "jsval \<Rightarrow> bool" where
  "nullish JUndefined = True"
| "nullish JNull = True"
| "nullish _ = False"

text \<open>ToBoolean, the test behind \<^verbatim>\<open>&&\<close>, \<^verbatim>\<open>||\<close> and \<^verbatim>\<open>? :\<close>.\<close>

fun truthy :: "jsval \<Rightarrow> bool" where
  "truthy JUndefined = False"
| "truthy JNull = False"
| "truthy (JBool b) = b"
| "truthy (JNum n) = (n \<noteq> Finite 0 \<and> n \<noteq> NaN)"
| "truthy (JStr s) = (s \<noteq> [])"
| "truthy (JObj a ps) = True"

text \<open>
  \<^verbatim>\<open>x === y\<close>: equal kinds and equal values; \<^verbatim>\<open>NaN\<close> differs from itself, and two
  objects are equal when they are the same reference.
\<close>

fun strict_eq :: "jsval \<Rightarrow> jsval \<Rightarrow> bool" where
  "strict_eq JUndefined JUndefined = True"
| "strict_eq JNull JNull = True"
| "strict_eq (JBool a) (JBool b) = (a = b)"
| "strict_eq (JNum a) (JNum b) = (a = b \<and> a \<noteq> NaN)"
| "strict_eq (JStr a) (JStr b) = (a = b)"
| "strict_eq (JObj a ps) (JObj b qs) = (a = b)"
| "strict_eq _ _ = False"

text \<open>
  \<^verbatim>\<open>v.k\<close> for the property names the file reads (\<^verbatim>\<open>data\<close>, \<^verbatim>\<open>isAdmin\<close>, \<^verbatim>\<open>itemId\<close>):
  a TypeError on a nullish value, the own property of an object or \<^verbatim>\<open>undefined\<close>
  when it has none, and \<^verbatim>\<open>undefined\<close> on a boolean, number or string, whose
  prototypes carry none of these names.
\<close>

fun getProp :: "jsval \<Rightarrow> string \<Rightarrow> error + jsval" where
  "getProp JUndefined k = Inl TypeError"
| "getProp JNull k = Inl TypeError"
| "getProp (JObj a ps) k = Inr (case map_of ps k of None \<Rightarrow> JUndefined | Some v \<Rightarrow> v)"
| "getProp _ k = Inr JUndefined"

section \<open>The User list of \<^verbatim>\<open>schema.ts\<close>\<close>

text \<open>
  Every function destructures its argument, \<^verbatim>\<open>({ session })\<close> or
  \<^verbatim>\<open>({ session, item })\<close>; the model takes the destructured values, \<open>JUndefined\<close>
  standing for a property the caller left out.
\<close>

text \<open>\<^verbatim>\<open>delete: ({ session }) => session?.data?.isAdmin\<close>\<close>

definition User_access_delete :: "jsval \<Rightarrow> error + jsval" where
  "User_access_delete session =
     (if nullish session then Inr JUndefined
      else case getProp session ''data'' of
        Inl e \<Rightarrow> Inl e
      | Inr d \<Rightarrow> if nullish d then Inr JUndefined else getProp d ''isAdmin'')"

text \<open>\<^verbatim>\<open>hideDelete: ({ session }) => session?.data?.isAdmin\<close>\<close>

definition User_admin_hideDelete :: "jsval \<Rightarrow> error + jsval" where
  "User_admin_hideDelete session =
     (if nullish session then Inr JUndefined
      else case getProp session ''data'' of
        Inl e \<Rightarrow> Inl e
      | Inr d \<Rightarrow> if nullish d then Inr JUndefined else getProp d ''isAdmin'')"

text \<open>
  \<^verbatim>\<open>update: ({ session, item }) =>
    session && (session.data.isAdmin || session.itemId === item.itemId)\<close>
\<close>

definition password_access_update :: "jsval \<Rightarrow> jsval \<Rightarrow> error + jsval" where
  "password_access_update session item =
     (if \<not> truthy session then Inr session
      else case getProp session ''data'' of
        Inl e \<Rightarrow> Inl e
      | Inr d \<Rightarrow>
          (case getProp d ''isAdmin'' of
            Inl e \<Rightarrow> Inl e
          | Inr adm \<Rightarrow>
              if truthy adm then Inr adm
              else case getProp session ''itemId'' of
                Inl e \<Rightarrow> Inl e
              | Inr sid \<Rightarrow>
                  (case getProp item ''itemId'' of
                    Inl e \<Rightarrow> Inl e
                  | Inr iid \<Rightarrow> Inr (JBool (strict_eq sid iid)))))"

text \<open>
  \<^verbatim>\<open>fieldMode: ({ session, item }) =>
    session && (session.data.isAdmin || session.itemId === item.itemId) ? 'edit' : 'hidden'\<close>
\<close>

definition password_itemView_fieldMode :: "jsval \<Rightarrow> jsval \<Rightarrow> error + fieldMode" where
  "password_itemView_fieldMode session item =
     (if \<not> truthy session then Inr Hidden
      else case getProp session ''data'' of
        Inl e \<Rightarrow> Inl e
      | Inr d \<Rightarrow>
          (case getProp d ''isAdmin'' of
            Inl e \<Rightarrow> Inl e
          | Inr adm \<Rightarrow>
              if truthy adm then Inr Edit
              else case getProp session ''itemId'' of
                Inl e \<Rightarrow> Inl e
              | Inr sid \<Rightarrow>
                  (case getProp item ''itemId'' of
                    Inl e \<Rightarrow> Inl e
                  | Inr iid \<Rightarrow> Inr (if strict_eq sid iid then Edit else Hidden))))"

text \<open>\<^verbatim>\<open>update: ({ session }) => session?.data.isAdmin\<close> (the isAdmin field)\<close>

definition isAdmin_access_update :: "jsval \<Rightarrow> error + jsval" where
  "isAdmin_access_update session =
     (if nullish session then Inr JUndefined
      else case getProp session ''data'' of
        Inl e \<Rightarrow> Inl e
      | Inr d \<Rightarrow> getProp d ''isAdmin'')"

text \<open>\<^verbatim>\<open>fieldMode: ({ session }) => (session?.data.isAdmin ? 'edit' : 'read')\<close>\<close>

definition isAdmin_itemView_fieldMode :: "jsval \<Rightarrow> error + fieldMode" where
  "isAdmin_itemView_fieldMode session =
     (if nullish session then Inr Read
      else case getProp session ''data'' of
        Inl e \<Rightarrow> Inl e
      | Inr d \<Rightarrow>
          (case getProp d ''isAdmin'' of
            Inl e \<Rightarrow> Inl e
          | Inr adm \<Rightarrow> Inr (if truthy adm then Edit else Read)))"

text \<open>\<^verbatim>\<open>update: ({ session }) => session?.data.isAdmin\<close> (the isEnabled field)\<close>

definition isEnabled_access_update :: "jsval \<Rightarrow> error + jsval" where
  "isEnabled_access_update session =
     (if nullish session then Inr JUndefined
      else case getProp session ''data'' of
        Inl e \<Rightarrow> Inl e
      | Inr d \<Rightarrow> getProp d ''isAdmin'')"

text \<open>\<^verbatim>\<open>fieldMode: ({ session }) => (session?.data.isAdmin ? 'edit' : 'read')\<close>\<close>

definition isEnabled_itemView_fieldMode :: "jsval \<Rightarrow> error + fieldMode" where
  "isEnabled_itemView_fieldMode session =
     (if nullish session then Inr Read
      else case getProp session ''data'' of
        Inl e \<Rightarrow> Inl e
      | Inr d \<Rightarrow>
          (case getProp d ''isAdmin'' of
            Inl e \<Rightarrow> Inl e
          | Inr adm \<Rightarrow> Inr (if truthy adm then Edit else Read)))"

section \<open>Vocabulary of the properties\<close>

text \<open>
  The framework reads the value a predicate returns as a decision: a truthy value allows
  (or, for \<^verbatim>\<open>hideDelete\<close>, hides), a falsy value denies. A predicate that throws has
  returned neither.
\<close>

definition allowed :: "error + jsval \<Rightarrow> bool" where
  "allowed r = (case r of Inl e \<Rightarrow> False | Inr v \<Rightarrow> truthy v)"

definition denies :: "error + jsval \<Rightarrow> bool" where
  "denies r = (case r of Inl e \<Rightarrow> False | Inr v \<Rightarrow> \<not> truthy v)"

definition returns_boolean :: "error + jsval \<Rightarrow> bool" where
  "returns_boolean r = (case r of Inr (JBool b) \<Rightarrow> True | _ \<Rightarrow> False)"

text \<open>An own property of an object; nothing on any other value.\<close>

fun field :: "jsval \<Rightarrow> string \<Rightarrow> jsval option" where
  "field (JObj a ps) k = map_of ps k"
| "field _ k = None"

text \<open>
  The flag a session carries at \<^verbatim>\<open>session.data.isAdmin\<close>: \<open>None\<close> when the session is
  not an object, has no \<^verbatim>\<open>data\<close> object, or the object has no \<^verbatim>\<open>isAdmin\<close>.
\<close>

definition session_isAdmin :: "jsval \<Rightarrow> jsval option" where
  "session_isAdmin s = (case field s ''data'' of None \<Rightarrow> None | Some d \<Rightarrow> field d ''isAdmin'')"

text \<open>The flag, where the session carries one, is a boolean (as a checkbox field stores it).\<close>

definition boolean_flag :: "jsval \<Rightarrow> bool" where
  "boolean_flag s =
     (case session_isAdmin s of None \<Rightarrow> True | Some (JBool b) \<Rightarrow> True | Some _ \<Rightarrow> False)"

text \<open>The sessions and items of the scenarios.\<close>

definition user_u1 :: jsval where
  "user_u1 = JObj 1 [(''itemId'', JStr ''u1''), (''data'', JObj 2 [(''isAdmin'', JBool False)])]"

definition admin_u2 :: jsval where
  "admin_u2 = JObj 3 [(''itemId'', JStr ''u2''), (''data'', JObj 4 [(''isAdmin'', JBool True)])]"

definition no_data_u1 :: jsval where
  "no_data_u1 = JObj 5 [(''itemId'', JStr ''u1'')]"

definition item_u1 :: jsval where
  "item_u1 = JObj 6 [(''id'', JStr ''u1''), (''name'', JStr ''Ada'')]"

text \<open>Two items that carry the same \<^verbatim>\<open>itemId\<close> property and different ids.\<close>

definition item_a :: jsval where
  "item_a = JObj 7 [(''id'', JStr ''u1''), (''itemId'', JStr ''u1'')]"

definition item_b :: jsval where
  "item_b = JObj 8 [(''id'', JStr ''u9''), (''itemId'', JStr ''u1'')]"

text \<open>The \<^verbatim>\<open>data\<close> of a session is missing, \<^verbatim>\<open>undefined\<close> or \<^verbatim>\<open>null\<close>.\<close>

definition data_missing :: "jsval \<Rightarrow> bool" where
  "data_missing s = (case field s ''data'' of None \<Rightarrow> True | Some d \<Rightarrow> nullish d)"

section \<open>What the chains compute\<close>

lemma getProp_field:
  "getProp v k = (if nullish v then Inl TypeError
                  else Inr (case field v k of None \<Rightarrow> JUndefined | Some x \<Rightarrow> x))"
  by (cases v) simp_all

lemma field_Some_not_nullish: "field v k = Some x \<Longrightarrow> \<not> nullish v"
  by (cases v) simp_all

lemma nullish_not_truthy: "nullish s \<Longrightarrow> \<not> truthy s"
  by (cases s) simp_all

lemma decision_simps:
  "allowed (Inl e) = False" "allowed (Inr v) = truthy v"
  "denies (Inl e) = False" "denies (Inr v) = (\<not> truthy v)"
  by (simp_all add: allowed_def denies_def)

text \<open>
  The fully guarded chain \<^verbatim>\<open>session?.data?.isAdmin\<close> never throws: it yields the flag
  where the session carries one and \<^verbatim>\<open>undefined\<close> everywhere else.
\<close>

lemma delete_result:
  "User_access_delete s = Inr (case session_isAdmin s of None \<Rightarrow> JUndefined | Some v \<Rightarrow> v)"
proof (cases "field s ''data''")
  case None
  then show ?thesis
    by (cases s) (simp_all add: User_access_delete_def session_isAdmin_def)
next
  case (Some d)
  then have "\<not> nullish s" by (rule field_Some_not_nullish)
  with Some show ?thesis
    by (cases d) (simp_all add: User_access_delete_def session_isAdmin_def getProp_field
        split: option.splits)
qed

text \<open>
  The half guarded chain \<^verbatim>\<open>session?.data.isAdmin\<close> throws exactly on a present
  session whose data is missing.
\<close>

lemma chain_result:
  "(if nullish s then Inr JUndefined
    else case getProp s ''data'' of Inl e \<Rightarrow> Inl e | Inr d \<Rightarrow> getProp d ''isAdmin'') =
   (if nullish s then Inr JUndefined
    else if data_missing s then Inl TypeError
    else Inr (case session_isAdmin s of None \<Rightarrow> JUndefined | Some v \<Rightarrow> v))"
  by (simp add: getProp_field data_missing_def session_isAdmin_def split: option.splits)

lemma flag_when_data_missing: "data_missing s \<Longrightarrow> session_isAdmin s = None"
  by (cases "field s ''data''")
    (auto simp: data_missing_def session_isAdmin_def elim: nullish.elims)

lemma flag_when_absent: "nullish s \<Longrightarrow> session_isAdmin s = None"
  by (cases s) (simp_all add: session_isAdmin_def)

text \<open>The password field mode is the update decision, mapped to \<open>Edit\<close> and \<open>Hidden\<close>.\<close>

lemma fieldMode_follows_update:
  "password_itemView_fieldMode s i =
     (case password_access_update s i of
        Inl e \<Rightarrow> Inl e
      | Inr v \<Rightarrow> Inr (if truthy v then Edit else Hidden))"
  by (simp add: password_itemView_fieldMode_def password_access_update_def split: sum.splits)

section \<open>The claims\<close>

text \<open>
  C1. The claim: password.update allows exactly when the session is present and is an
  admin or names the item by \<^verbatim>\<open>session.itemId === item.id\<close>. The code compares with
  \<^verbatim>\<open>item.itemId\<close>, a property a User item does not have: the non-admin session of
  user u1 is present, its itemId equals the id of item u1, and the update of its own
  password is denied.
\<close>

theorem password_update_self_denied:
  "truthy user_u1
   \<and> session_isAdmin user_u1 = Some (JBool False)
   \<and> field user_u1 ''itemId'' = Some (JStr ''u1'')
   \<and> field item_u1 ''id'' = Some (JStr ''u1'')
   \<and> strict_eq (JStr ''u1'') (JStr ''u1'')
   \<and> password_access_update user_u1 item_u1 = Inr (JBool False)"
  by (simp add: password_access_update_def session_isAdmin_def user_u1_def item_u1_def)

text \<open>
  C2. The claim: hideDelete is true for an absent or non-admin session and false for an
  admin. The code returns the admin flag itself: falsy (\<^verbatim>\<open>undefined\<close> or \<^verbatim>\<open>false\<close>)
  for the absent and the non-admin session, \<^verbatim>\<open>true\<close> for the admin.
\<close>

theorem hideDelete_inverted:
  "User_admin_hideDelete JNull = Inr JUndefined
   \<and> User_admin_hideDelete JUndefined = Inr JUndefined
   \<and> User_admin_hideDelete user_u1 = Inr (JBool False)
   \<and> User_admin_hideDelete admin_u2 = Inr (JBool True)"
  by (simp add: User_admin_hideDelete_def user_u1_def admin_u2_def)

text \<open>
  C3. The claim: no predicate throws, whatever the session, also when a present session
  has no data. Only \<^verbatim>\<open>delete\<close> (and \<^verbatim>\<open>hideDelete\<close>) guard the read of \<^verbatim>\<open>data\<close>;
  on the present session without data the password and flag predicates and the three
  field mode functions throw a TypeError.
\<close>

theorem missing_data_throws:
  "\<not> nullish no_data_u1
   \<and> getProp no_data_u1 ''data'' = Inr JUndefined
   \<and> password_access_update no_data_u1 item_u1 = Inl TypeError
   \<and> password_itemView_fieldMode no_data_u1 item_u1 = Inl TypeError
   \<and> isAdmin_access_update no_data_u1 = Inl TypeError
   \<and> isAdmin_itemView_fieldMode no_data_u1 = Inl TypeError
   \<and> isEnabled_access_update no_data_u1 = Inl TypeError
   \<and> isEnabled_itemView_fieldMode no_data_u1 = Inl TypeError
   \<and> User_access_delete no_data_u1 = Inr JUndefined"
  by (simp add: password_access_update_def password_itemView_fieldMode_def
      isAdmin_access_update_def isAdmin_itemView_fieldMode_def isEnabled_access_update_def
      isEnabled_itemView_fieldMode_def User_access_delete_def no_data_u1_def)

text \<open>
  C4. For every session value, delete on the User list is allowed exactly when the
  session carries a truthy \<^verbatim>\<open>data.isAdmin\<close>; where the flag is a boolean that is exactly
  \<^verbatim>\<open>isAdmin = true\<close>. An absent session is denied, and so is a session whose isAdmin is
  false.
\<close>

theorem User_access_delete_allowed_iff:
  "(allowed (User_access_delete s) \<longleftrightarrow> (\<exists>v. session_isAdmin s = Some v \<and> truthy v))
   \<and> (boolean_flag s \<longrightarrow>
        (allowed (User_access_delete s) \<longleftrightarrow> session_isAdmin s = Some (JBool True)))
   \<and> (nullish s \<longrightarrow> denies (User_access_delete s))
   \<and> (session_isAdmin s = Some (JBool False) \<longrightarrow> denies (User_access_delete s))"
proof (cases "session_isAdmin s")
  case None
  then show ?thesis by (simp add: delete_result decision_simps)
next
  case (Some v)
  then have "\<not> nullish s"
    by (auto simp: session_isAdmin_def split: option.splits dest: field_Some_not_nullish)
  with Some show ?thesis
    by (cases v) (auto simp: delete_result decision_simps boolean_flag_def)
qed

theorem User_access_delete_allowed_iff_witness:
  "boolean_flag admin_u2 \<and> session_isAdmin admin_u2 = Some (JBool True)
   \<and> allowed (User_access_delete admin_u2)
   \<and> nullish JNull \<and> denies (User_access_delete JNull)
   \<and> session_isAdmin user_u1 = Some (JBool False) \<and> denies (User_access_delete user_u1)"
proof -
  have a: "session_isAdmin admin_u2 = Some (JBool True)"
    by (simp add: session_isAdmin_def admin_u2_def)
  then have b: "boolean_flag admin_u2" by (simp add: boolean_flag_def)
  have n: "nullish JNull" by simp
  have u: "session_isAdmin user_u1 = Some (JBool False)"
    by (simp add: session_isAdmin_def user_u1_def)
  from User_access_delete_allowed_iff [of admin_u2] User_access_delete_allowed_iff [of JNull]
    User_access_delete_allowed_iff [of user_u1] a b n u
  show ?thesis by simp
qed

text \<open>
  C5. For every session value, the update predicates of the isAdmin field and of the
  isEnabled field allow exactly when the session carries a truthy \<^verbatim>\<open>data.isAdmin\<close>;
  where the flag is a boolean that is exactly \<^verbatim>\<open>isAdmin = true\<close>.
\<close>

theorem update_flags_allowed_iff:
  "(allowed (isAdmin_access_update s) \<longleftrightarrow> (\<exists>v. session_isAdmin s = Some v \<and> truthy v))
   \<and> (allowed (isEnabled_access_update s) \<longleftrightarrow> (\<exists>v. session_isAdmin s = Some v \<and> truthy v))
   \<and> (boolean_flag s \<longrightarrow>
        (allowed (isAdmin_access_update s) \<longleftrightarrow> session_isAdmin s = Some (JBool True))
      \<and> (allowed (isEnabled_access_update s) \<longleftrightarrow> session_isAdmin s = Some (JBool True)))"
proof -
  have a: "allowed (isAdmin_access_update s) \<longleftrightarrow> (\<exists>v. session_isAdmin s = Some v \<and> truthy v)"
    unfolding isAdmin_access_update_def chain_result
    by (auto simp: decision_simps flag_when_absent flag_when_data_missing split: option.splits)
  have b: "allowed (isEnabled_access_update s) \<longleftrightarrow> (\<exists>v. session_isAdmin s = Some v \<and> truthy v)"
    unfolding isEnabled_access_update_def chain_result
    by (auto simp: decision_simps flag_when_absent flag_when_data_missing split: option.splits)
  have c: "(\<exists>v. session_isAdmin s = Some v \<and> truthy v) \<longleftrightarrow> session_isAdmin s = Some (JBool True)"
    if "boolean_flag s"
    using that by (auto simp: boolean_flag_def split: option.splits jsval.splits)
  from a b c show ?thesis by simp
qed

theorem update_flags_allowed_iff_witness:
  "boolean_flag admin_u2 \<and> session_isAdmin admin_u2 = Some (JBool True)
   \<and> allowed (isAdmin_access_update admin_u2) \<and> allowed (isEnabled_access_update admin_u2)
   \<and> boolean_flag user_u1 \<and> session_isAdmin user_u1 = Some (JBool False)
   \<and> \<not> allowed (isAdmin_access_update user_u1) \<and> \<not> allowed (isEnabled_access_update user_u1)"
proof -
  have a: "session_isAdmin admin_u2 = Some (JBool True)"
    by (simp add: session_isAdmin_def admin_u2_def)
  then have b: "boolean_flag admin_u2" by (simp add: boolean_flag_def)
  have u: "session_isAdmin user_u1 = Some (JBool False)"
    by (simp add: session_isAdmin_def user_u1_def)
  then have c: "boolean_flag user_u1" by (simp add: boolean_flag_def)
  from update_flags_allowed_iff [of admin_u2] update_flags_allowed_iff [of user_u1] a b u c
  show ?thesis by simp
qed

text \<open>
  C6. Presentation parity of the password field: for every session and item on which
  the update predicate returns a deny decision, the field mode function returns
  \<open>Hidden\<close>; and wherever the update is not allowed (a deny or a throw) the field mode
  is never \<open>Edit\<close>.
\<close>

theorem password_fieldMode_parity:
  "(denies (password_access_update s i) \<longrightarrow> password_itemView_fieldMode s i = Inr Hidden)
   \<and> (\<not> allowed (password_access_update s i) \<longrightarrow> password_itemView_fieldMode s i \<noteq> Inr Edit)"
  by (simp add: fieldMode_follows_update allowed_def denies_def split: sum.splits)

theorem password_fieldMode_parity_witness:
  "denies (password_access_update user_u1 item_u1)
   \<and> password_itemView_fieldMode user_u1 item_u1 = Inr Hidden
   \<and> \<not> allowed (password_access_update no_data_u1 item_u1)
   \<and> password_itemView_fieldMode no_data_u1 item_u1 \<noteq> Inr Edit"
proof -
  have d: "denies (password_access_update user_u1 item_u1)"
    by (simp add: password_access_update_def denies_def user_u1_def item_u1_def)
  have n: "\<not> allowed (password_access_update no_data_u1 item_u1)"
    by (simp add: password_access_update_def allowed_def no_data_u1_def)
  from password_fieldMode_parity [of user_u1 item_u1]
    password_fieldMode_parity [of no_data_u1 item_u1] d n
  show ?thesis by simp
qed

text \<open>
  C7. The claim: the password field mode is \<open>Edit\<close> for a present session that is an
  admin or names the item by \<^verbatim>\<open>session.itemId === item.id\<close>, so the non-admin session
  with itemId u1 viewing the item with id u1 gets \<open>Edit\<close>. The code compares with
  \<^verbatim>\<open>item.itemId\<close> and returns \<open>Hidden\<close> there.
\<close>

theorem password_fieldMode_self_hidden:
  "field user_u1 ''itemId'' = Some (JStr ''u1'')
   \<and> session_isAdmin user_u1 = Some (JBool False)
   \<and> field item_u1 ''id'' = Some (JStr ''u1'')
   \<and> password_itemView_fieldMode user_u1 item_u1 = Inr Hidden"
  by (simp add: password_itemView_fieldMode_def session_isAdmin_def user_u1_def item_u1_def)

text \<open>
  C8. For an absent session (\<^verbatim>\<open>null\<close> or \<^verbatim>\<open>undefined\<close>) the list level delete and the
  three field level update predicates each return, without throwing, a falsy value:
  access is denied. For password.update this holds whatever the item is.
\<close>

theorem absent_session_denies:
  "nullish s \<Longrightarrow>
     denies (User_access_delete s) \<and> denies (password_access_update s i)
     \<and> denies (isAdmin_access_update s) \<and> denies (isEnabled_access_update s)"
  by (simp add: User_access_delete_def password_access_update_def isAdmin_access_update_def
      isEnabled_access_update_def denies_def nullish_not_truthy)

theorem absent_session_denies_witness:
  "nullish JNull \<and> denies (User_access_delete JNull)
   \<and> denies (password_access_update JNull item_u1)
   \<and> denies (isAdmin_access_update JNull) \<and> denies (isEnabled_access_update JNull)"
proof -
  have h: "nullish JNull" by simp
  from absent_session_denies [OF h, of item_u1] h show ?thesis by simp
qed

text \<open>
  C9. The claim: every access predicate returns a boolean on every input. For the
  session \<^verbatim>\<open>null\<close> the delete predicate returns \<^verbatim>\<open>undefined\<close>.
\<close>

theorem returns_boolean_counterexample:
  "User_access_delete JNull = Inr JUndefined \<and> \<not> returns_boolean (User_access_delete JNull)"
  by (simp add: User_access_delete_def returns_boolean_def)

text \<open>
  C9, as amended. For every session that carries a boolean \<^verbatim>\<open>data.isAdmin\<close> (and, for
  password.update, every item object) each of the four access predicates returns a
  boolean. For an absent session none does: delete and the two flag updates return
  \<^verbatim>\<open>undefined\<close>, and password.update returns the session value itself.
\<close>

theorem returns_boolean_for_typed_session:
  "(session_isAdmin s = Some (JBool b) \<longrightarrow>
      returns_boolean (User_access_delete s)
    \<and> returns_boolean (password_access_update s (JObj a ps))
    \<and> returns_boolean (isAdmin_access_update s)
    \<and> returns_boolean (isEnabled_access_update s))
   \<and> (nullish s \<longrightarrow>
      User_access_delete s = Inr JUndefined
    \<and> password_access_update s i = Inr s
    \<and> isAdmin_access_update s = Inr JUndefined
    \<and> isEnabled_access_update s = Inr JUndefined)"
proof (intro conjI impI)
  assume f: "session_isAdmin s = Some (JBool b)"
  then obtain d where d: "field s ''data'' = Some d" "field d ''isAdmin'' = Some (JBool b)"
    by (auto simp: session_isAdmin_def split: option.splits)
  then have n: "\<not> nullish s" "\<not> nullish d" by (auto dest: field_Some_not_nullish)
  from d(1) have t: "truthy s" by (cases s) simp_all
  show "returns_boolean (User_access_delete s)"
    by (simp add: delete_result f returns_boolean_def)
  show "returns_boolean (isAdmin_access_update s)"
    by (simp add: isAdmin_access_update_def getProp_field n d returns_boolean_def)
  show "returns_boolean (isEnabled_access_update s)"
    by (simp add: isEnabled_access_update_def getProp_field n d returns_boolean_def)
  show "returns_boolean (password_access_update s (JObj a ps))"
    by (simp add: password_access_update_def getProp_field n d t returns_boolean_def)
next
  assume "nullish s"
  then show "User_access_delete s = Inr JUndefined" by (simp add: User_access_delete_def)
next
  assume "nullish s"
  then show "password_access_update s i = Inr s"
    by (simp add: password_access_update_def nullish_not_truthy)
next
  assume "nullish s"
  then show "isAdmin_access_update s = Inr JUndefined" by (simp add: isAdmin_access_update_def)
next
  assume "nullish s"
  then show "isEnabled_access_update s = Inr JUndefined"
    by (simp add: isEnabled_access_update_def)
qed

theorem returns_boolean_for_typed_session_witness:
  "session_isAdmin user_u1 = Some (JBool False)
   \<and> returns_boolean (User_access_delete user_u1)
   \<and> returns_boolean (password_access_update user_u1 item_u1)
   \<and> returns_boolean (isAdmin_access_update user_u1)
   \<and> returns_boolean (isEnabled_access_update user_u1)
   \<and> nullish JUndefined
   \<and> password_access_update JUndefined item_u1 = Inr JUndefined"
proof -
  have f: "session_isAdmin user_u1 = Some (JBool False)"
    by (simp add: session_isAdmin_def user_u1_def)
  have n: "nullish JUndefined" by simp
  from returns_boolean_for_typed_session
      [of user_u1 False 6 "[(''id'', JStr ''u1''), (''name'', JStr ''Ada'')]"]
    returns_boolean_for_typed_session [of JUndefined _ _ _ item_u1] f n
  show ?thesis by (simp add: item_u1_def)
qed

text \<open>
  C10. Neither the password update predicate nor the password field mode function
  reads the id of the item: for a fixed session, two items with the same \<^verbatim>\<open>itemId\<close>
  property get the same results, whatever their ids are.
\<close>

theorem password_ignores_item_id:
  assumes "getProp i1 ''itemId'' = getProp i2 ''itemId''"
  shows "password_access_update s i1 = password_access_update s i2
     \<and> password_itemView_fieldMode s i1 = password_itemView_fieldMode s i2"
  unfolding password_access_update_def password_itemView_fieldMode_def assms by simp

theorem password_ignores_item_id_witness:
  "getProp item_a ''itemId'' = getProp item_b ''itemId''
   \<and> getProp item_a ''id'' \<noteq> getProp item_b ''id''
   \<and> password_access_update user_u1 item_a = password_access_update user_u1 item_b
   \<and> password_itemView_fieldMode user_u1 item_a = password_itemView_fieldMode user_u1 item_b
   \<and> password_itemView_fieldMode user_u1 item_b = Inr Edit"
proof -
  have h: "getProp item_a ''itemId'' = getProp item_b ''itemId''"
    by (simp add: item_a_def item_b_def)
  have d: "getProp item_a ''id'' \<noteq> getProp item_b ''id''"
    by (simp add: item_a_def item_b_def)
  have e: "password_itemView_fieldMode user_u1 item_b = Inr Edit"
    by (simp add: password_itemView_fieldMode_def user_u1_def item_b_def)
  from password_ignores_item_id [OF h, of user_u1] h d e show ?thesis by simp
qed

end
